theory Spec2Isabelle
  imports Main "HOL-Library.Word"
begin

section \<open>The bounded capture sink (\<open>limitedBuffer\<close>, executor.go)\<close>

text \<open>
  Go's \<open>int64\<close> is a 64-bit word read in two's complement (\<open>sint\<close>); \<open>+\<close> and \<open>-\<close>
  wrap around as they do in Go. A \<open>[]byte\<close> and a Go \<open>string\<close> are both byte sequences,
  here lists of 8-bit characters, so that \<open>String()\<close> is the identity on the stored bytes.
\<close>

type_synonym int64 = "64 word"
type_synonym bytes = "char list"

text \<open>
  \<^verbatim>\<open>
  type limitedBuffer struct {
      buf       bytes.Buffer
      limit     int64
      written   int64
      truncated bool
  }
  \<close>
\<close>

record limitedBuffer =
  buf :: bytes
  limit :: int64
  written :: int64
  truncated :: bool

definition newLimitedBuffer :: "int64 \<Rightarrow> limitedBuffer" where
  "newLimitedBuffer l = \<lparr>buf = [], limit = l, written = 0, truncated = False\<rparr>"

text \<open>
  \<open>Write\<close> returns the updated sink and the count it reports to its caller; the error
  it returns is always nil. \<open>bytes.Buffer.Write q\<close> appends all of \<open>q\<close> and returns
  \<open>len q\<close>, so \<open>n\<close> is the length of what was appended. \<open>len p\<close> is a Go \<open>int\<close>
  (never negative, below \<open>2 ^ 63\<close>), hence \<open>int64(len(p))\<close> is the length itself and the
  comparison \<open>int64(len(p)) > remaining\<close> is the one between that length and the signed
  value of \<open>remaining\<close>. The slice \<open>p[:remaining]\<close> is only taken when
  \<open>0 < remaining < len p\<close>, where it is the prefix of that many bytes.
\<close>

definition Write :: "limitedBuffer \<Rightarrow> bytes \<Rightarrow> limitedBuffer \<times> nat" where
  "Write b p =
    (if sint (limit b) \<le> 0 then
       (b\<lparr>buf := buf b @ p, written := written b + of_nat (length p)\<rparr>, length p)
     else
       let remaining = limit b - written b in
       if sint remaining \<le> 0 then
         (b\<lparr>truncated := True\<rparr>, length p)
       else if int (length p) > sint remaining then
         let q = take (nat (sint remaining)) p in
         (b\<lparr>buf := buf b @ q, written := written b + of_nat (length q), truncated := True\<rparr>,
          length p)
       else
         (b\<lparr>buf := buf b @ p, written := written b + of_nat (length p)\<rparr>, length p))"

definition String :: "limitedBuffer \<Rightarrow> bytes" where
  "String b = buf b"

text \<open>A stream's pump calls \<open>Write\<close> once per chunk, in order, on the same sink.\<close>

definition writes :: "limitedBuffer \<Rightarrow> bytes list \<Rightarrow> limitedBuffer" where
  "writes b ps = foldl (\<lambda>s p. fst (Write s p)) b ps"

text \<open>
  The invariant of the proofs below (it is not a function of the program): what a sink
  created with a positive limit \<open>l\<close> holds after the chunks \<open>cs\<close>. It stores the first
  \<open>l\<close> bytes of their concatenation, its counter is the stored length, and its flag
  is set when the chunks are longer than the limit together, clear when they are
  shorter, and clear at exactly the limit when no chunk is empty.
\<close>

definition fresh_after :: "int64 \<Rightarrow> bytes list \<Rightarrow> limitedBuffer \<Rightarrow> bool" where
  "fresh_after l cs s \<longleftrightarrow>
     buf s = take (nat (sint l)) (concat cs) \<and>
     limit s = l \<and>
     sint (written s) = min (sint l) (int (length (concat cs))) \<and>
     (sint l < int (length (concat cs)) \<longrightarrow> truncated s) \<and>
     (int (length (concat cs)) < sint l \<longrightarrow> \<not> truncated s) \<and>
     ([] \<notin> set cs \<longrightarrow> int (length (concat cs)) = sint l \<longrightarrow> \<not> truncated s)"


section \<open>Errors and results (executor.go)\<close>

text \<open>
  What the code reads of a \<open>syscall.WaitStatus\<close> goes through \<open>Exited()\<close>,
  \<open>ExitStatus()\<close>, \<open>Signaled()\<close> and \<open>Signal()\<close>: a status is that of a normal exit
  with its code, of a termination by a signal with its number, or neither.
  \<open>ExitStatus()\<close> is \<open>-1\<close> unless the process exited, \<open>Signal()\<close> is \<open>-1\<close> unless
  it was signaled.
\<close>

datatype WaitStatus = WExited nat | WSignaled nat | WOther

fun Exited :: "WaitStatus \<Rightarrow> bool" where
  "Exited (WExited k) = True"
| "Exited _ = False"

fun ExitStatus :: "WaitStatus \<Rightarrow> int" where
  "ExitStatus (WExited k) = int k"
| "ExitStatus _ = - 1"

fun Signaled :: "WaitStatus \<Rightarrow> bool" where
  "Signaled (WSignaled s) = True"
| "Signaled _ = False"

fun Signal :: "WaitStatus \<Rightarrow> int" where
  "Signal (WSignaled s) = int s"
| "Signal _ = - 1"

text \<open>
  An \<open>os.ProcessState\<close> carries the wait status: \<open>Sys()\<close> returns it and
  \<open>ExitCode()\<close> is its \<open>ExitStatus()\<close>, so \<open>-1\<close> for a process that a signal
  terminated.
\<close>

datatype ProcessState = ProcessState (Sys: WaitStatus)

definition ProcessState_ExitCode :: "ProcessState \<Rightarrow> int" where
  "ProcessState_ExitCode ps = ExitStatus (Sys ps)"

text \<open>
  Error values: \<open>errors.New(text)\<close>, an \<open>*exec.ExitError\<close> with its process state, any
  other error of the operating system or of \<open>os/exec\<close>, and
  \<open>fmt.Errorf("%w: %v", e, v)\<close>, which wraps \<open>e\<close> and only prints \<open>v\<close> (nil or an
  error). A nil \<open>error\<close> is \<open>None\<close>.
\<close>

datatype error =
    ErrorString string
  | ExitError ProcessState
  | SystemError string
  | Errorf_w error "error option"

definition ErrContextDone :: error where
  "ErrContextDone = ErrorString ''executor: context timeout or cancelled''"

definition ErrStart :: error where
  "ErrStart = ErrorString ''executor: failed to start''"

text \<open>
  \<open>errors.Is\<close> compares the error with the target and then follows \<open>Unwrap\<close>; only
  the value built by \<open>fmt.Errorf\<close> with \<open>%w\<close> unwraps. The sentinels of this package
  have distinct texts, so comparing them by text tells them apart as Go's comparison of
  their pointers does.
\<close>

fun errors_Is :: "error \<Rightarrow> error \<Rightarrow> bool" where
  "errors_Is (Errorf_w e v) target = (Errorf_w e v = target \<or> errors_Is e target)"
| "errors_Is e target = (e = target)"

fun Is :: "error option \<Rightarrow> error \<Rightarrow> bool" where
  "Is None target = False"
| "Is (Some e) target = errors_Is e target"

text \<open>
  \<^verbatim>\<open>
  type Result struct {
      Stdout, Stderr   string
      ExitCode         int
      Err              error
      Duration         time.Duration
      StdoutTruncated, StderrTruncated bool
  }
  \<close>
  The exit codes the code produces lie between \<open>-1\<close> and \<open>255\<close>, so Go's \<open>int\<close> is
  read as an integer. A \<open>time.Duration\<close> is an \<open>int64\<close> of nanoseconds.
\<close>

record Result =
  Stdout :: bytes
  Stderr :: bytes
  ExitCode :: int
  Err :: "error option"
  Duration :: int64
  StdoutTruncated :: bool
  StderrTruncated :: bool

section \<open>Configuration and options (executor.go)\<close>

datatype Writer = Discard | External nat

record Credential =
  UID :: "32 word"
  GID :: "32 word"

record Config =
  cmd :: string
  args :: "string list"
  env :: "string list"
  dir :: string
  stdout :: Writer
  stderr :: Writer
  credential :: "Credential option"
  maxOutput :: int64

text \<open>An \<open>Option\<close> is a function that mutates the configuration it is given.\<close>

type_synonym Option = "Config \<Rightarrow> Config"

definition WithArgs :: "string list \<Rightarrow> Option" where
  "WithArgs a = (\<lambda>c. c\<lparr>args := a\<rparr>)"

definition WithEnv :: "string list \<Rightarrow> Option" where
  "WithEnv e = (\<lambda>c. c\<lparr>env := env c @ e\<rparr>)"

definition WithDir :: "string \<Rightarrow> Option" where
  "WithDir d = (\<lambda>c. c\<lparr>dir := d\<rparr>)"

definition WithStdout :: "Writer \<Rightarrow> Option" where
  "WithStdout w = (\<lambda>c. c\<lparr>stdout := w\<rparr>)"

definition WithStderr :: "Writer \<Rightarrow> Option" where
  "WithStderr w = (\<lambda>c. c\<lparr>stderr := w\<rparr>)"

definition WithCredential :: "32 word \<Rightarrow> 32 word \<Rightarrow> Option" where
  "WithCredential uid gid = (\<lambda>c. c\<lparr>credential := Some \<lparr>UID = uid, GID = gid\<rparr>\<rparr>)"

definition WithMaxOutput :: "int64 \<Rightarrow> Option" where
  "WithMaxOutput n = (\<lambda>c. c\<lparr>maxOutput := n\<rparr>)"

section \<open>Running a command (\<open>Run\<close> and the two variants of \<open>runCommand\<close>)\<close>

text \<open>
  What the context, the operating system and \<open>os/exec\<close> do during one call is the
  run's environment: the value of \<open>os.Environ()\<close>, the error of \<open>execCmd.Start()\<close>,
  which case of the \<open>select\<close> is taken (\<open>ctx.Done()\<close> first, or \<open>done\<close> first),
  whether \<open>execCmd.Process\<close> is set, the error that \<open>execCmd.Wait()\<close> sends on
  \<open>done\<close>, \<open>execCmd.ProcessState\<close> once the wait has returned, the chunks that the
  two streams of the process hand to \<open>execCmd.Stdout\<close> and \<open>execCmd.Stderr\<close>, and
  \<open>time.Since(start)\<close>. \<open>Wait\<close> returns after the copying of both streams has
  ended, so the sinks are read when every chunk has been written.
\<close>

record World =
  Environ :: "string list"
  Start_err :: "error option"
  ctx_Done_first :: bool
  Process_set :: bool
  Wait_err :: "error option"
  ProcessState_after :: "ProcessState option"
  stdout_chunks :: "bytes list"
  stderr_chunks :: "bytes list"
  elapsed :: int64

text \<open>
  The calls a run makes on the outside, in order: an option applied (by its position
  in the list), the command started, the process group killed (Unix) or the process
  killed (Windows), the result of the wait received. A started command is described by
  what the code sets on the \<open>exec.Cmd\<close>: path, arguments, directory, environment, and on
  Unix the \<open>SysProcAttr\<close> with \<open>Setpgid\<close> and the credential.
\<close>

record ExecCmd =
  Path :: string
  Args :: "string list"
  Dir :: string
  Env :: "string list"
  Setpgid :: bool
  SysCredential :: "Credential option"

datatype event = EvOption nat | EvStart ExecCmd | EvKillGroup | EvKillProcess | EvWait

text \<open>
  \<open>io.MultiWriter(stdoutBuf, cfg.stdout)\<close> writes every chunk to the sink first, and
  the sink never fails, so each sink receives each chunk of its stream.

  The Unix variant. After the \<open>select\<close> the exit code is \<open>-1\<close>,
  replaced by \<open>ProcessState.ExitCode()\<close> when there is a process state; otherwise, when
  the wait error is itself an \<open>*exec.ExitError\<close> (a type assertion, which a wrapped
  error does not pass), by the exit status or by 128 plus the signal number.
\<close>

definition runCommand_unix :: "World \<Rightarrow> Config \<Rightarrow> Result \<times> event list" where
  "runCommand_unix w cfg =
    (let execCmd = \<lparr>Path = cmd cfg, Args = args cfg, Dir = dir cfg,
                     Env = Environ w @ env cfg, Setpgid = True,
                     SysCredential = credential cfg\<rparr>;
         stdoutBuf = newLimitedBuffer (maxOutput cfg);
         stderrBuf = newLimitedBuffer (maxOutput cfg)
     in case Start_err w of
          Some err \<Rightarrow>
            (\<lparr>Stdout = [], Stderr = [], ExitCode = - 1,
              Err = Some (Errorf_w ErrStart (Some err)), Duration = 0,
              StdoutTruncated = False, StderrTruncated = False\<rparr>,
             [EvStart execCmd])
        | None \<Rightarrow>
            let stdoutBuf = writes stdoutBuf (stdout_chunks w);
                stderrBuf = writes stderrBuf (stderr_chunks w);
                (waitErr, calls) =
                  (if ctx_Done_first w
                   then (Some (Errorf_w ErrContextDone (Wait_err w)),
                         (if Process_set w then [EvKillGroup] else []) @ [EvWait])
                   else (Wait_err w, [EvWait]));
                exitCode =
                  (case ProcessState_after w of
                     Some ps \<Rightarrow> ProcessState_ExitCode ps
                   | None \<Rightarrow>
                      (case waitErr of
                         Some (ExitError exitErr) \<Rightarrow>
                           (if Exited (Sys exitErr) then ExitStatus (Sys exitErr)
                            else if Signaled (Sys exitErr) then 128 + Signal (Sys exitErr)
                            else - 1)
                       | _ \<Rightarrow> - 1))
            in (\<lparr>Stdout = String stdoutBuf, Stderr = String stderrBuf, ExitCode = exitCode,
                 Err = waitErr, Duration = elapsed w,
                 StdoutTruncated = truncated stdoutBuf,
                 StderrTruncated = truncated stderrBuf\<rparr>,
                EvStart execCmd # calls))"

text \<open>
  The Windows variant: no process group and no credential, the kill reaches the process
  itself, and the exit code comes from the process state only.
\<close>

definition runCommand_windows :: "World \<Rightarrow> Config \<Rightarrow> Result \<times> event list" where
  "runCommand_windows w cfg =
    (let execCmd = \<lparr>Path = cmd cfg, Args = args cfg, Dir = dir cfg,
                     Env = Environ w @ env cfg, Setpgid = False,
                     SysCredential = None\<rparr>;
         stdoutBuf = newLimitedBuffer (maxOutput cfg);
         stderrBuf = newLimitedBuffer (maxOutput cfg)
     in case Start_err w of
          Some err \<Rightarrow>
            (\<lparr>Stdout = [], Stderr = [], ExitCode = - 1,
              Err = Some (Errorf_w ErrStart (Some err)), Duration = 0,
              StdoutTruncated = False, StderrTruncated = False\<rparr>,
             [EvStart execCmd])
        | None \<Rightarrow>
            let stdoutBuf = writes stdoutBuf (stdout_chunks w);
                stderrBuf = writes stderrBuf (stderr_chunks w);
                (waitErr, calls) =
                  (if ctx_Done_first w
                   then (Some (Errorf_w ErrContextDone (Wait_err w)),
                         (if Process_set w then [EvKillProcess] else []) @ [EvWait])
                   else (Wait_err w, [EvWait]));
                exitCode =
                  (case ProcessState_after w of
                     Some ps \<Rightarrow> ProcessState_ExitCode ps
                   | None \<Rightarrow> - 1)
            in (\<lparr>Stdout = String stdoutBuf, Stderr = String stderrBuf, ExitCode = exitCode,
                 Err = waitErr, Duration = elapsed w,
                 StdoutTruncated = truncated stdoutBuf,
                 StderrTruncated = truncated stderrBuf\<rparr>,
                EvStart execCmd # calls))"

text \<open>The build tags select one of the two variants.\<close>

datatype platform = Unix | Windows

fun runCommand :: "platform \<Rightarrow> World \<Rightarrow> Config \<Rightarrow> Result \<times> event list" where
  "runCommand Unix w cfg = runCommand_unix w cfg"
| "runCommand Windows w cfg = runCommand_windows w cfg"

text \<open>
  \<open>Run\<close> (executor.go): an empty command returns at once; otherwise the configuration
  starts from the command, two discarding writers and a limit of \<open>1024 * 10\<close> bytes,
  the options are applied in order, and the platform's \<open>runCommand\<close> does the rest.
\<close>

definition defaultConfig :: "string \<Rightarrow> Config" where
  "defaultConfig c =
    \<lparr>cmd = c, args = [], env = [], dir = [], stdout = Discard, stderr = Discard,
     credential = None, maxOutput = 1024 * 10\<rparr>"

definition applyOptions :: "Option list \<Rightarrow> Config \<Rightarrow> Config" where
  "applyOptions opts cfg = foldl (\<lambda>c opt. opt c) cfg opts"

definition Run :: "platform \<Rightarrow> World \<Rightarrow> string \<Rightarrow> Option list \<Rightarrow> Result \<times> event list" where
  "Run pf w c opts =
    (if c = [] then
       (\<lparr>Stdout = [], Stderr = [], ExitCode = - 1,
         Err = Some (ErrorString ''executor: command cannot be empty''), Duration = 0,
         StdoutTruncated = False, StderrTruncated = False\<rparr>,
        [])
     else
       let cfg = applyOptions opts (defaultConfig c);
           (r, calls) = runCommand pf w cfg
       in (r, map EvOption [0..<length opts] @ calls))"

text \<open>
  \<open>os/exec\<close> documents what \<open>Wait\<close> leaves behind for a process that ran to the end and
  exited with code \<open>k\<close>: the process state is set, and the error is nil for code 0 and
  an \<open>*exec.ExitError\<close> holding that state otherwise. A run completes cleanly with code
  \<open>k\<close> when the start succeeded, the wait resolved the \<open>select\<close>, and the wait left
  exactly that.
\<close>

definition exits_cleanly :: "World \<Rightarrow> nat \<Rightarrow> bool" where
  "exits_cleanly w k \<longleftrightarrow>
     Start_err w = None \<and> \<not> ctx_Done_first w \<and>
     ProcessState_after w = Some (ProcessState (WExited k)) \<and>
     Wait_err w = (if k = 0 then None else Some (ExitError (ProcessState (WExited k))))"

text \<open>An option that leaves the capture limit of every configuration as it is.\<close>

definition keeps_maxOutput :: "Option \<Rightarrow> bool" where
  "keeps_maxOutput opt \<longleftrightarrow> (\<forall>cfg. maxOutput (opt cfg) = maxOutput cfg)"


section \<open>Properties of the sink\<close>

subsection \<open>Signed 64-bit arithmetic without wrap-around\<close>

lemma sint_bounds64: "- (2 ^ 63) \<le> sint (w :: int64) \<and> sint w < 2 ^ 63"
  using sint_ge [of w] sint_lt [of w] by simp

lemma sint_diff_exact:
  fixes l w :: int64
  assumes "- (2 ^ 63) \<le> sint l - sint w" "sint l - sint w < 2 ^ 63"
  shows "sint (l - w) = sint l - sint w"
  using assms by (simp add: sint_word_ariths signed_take_bit_int_eq_self)

lemma sint_of_nat_exact:
  assumes "int n < 2 ^ 63"
  shows "sint (of_nat n :: int64) = int n"
  using assms by (simp add: signed_of_nat signed_take_bit_int_eq_self)

lemma sint_add_of_nat:
  fixes w :: int64
  assumes "0 \<le> sint w" "sint w + int n < 2 ^ 63"
  shows "sint (w + of_nat n) = sint w + int n"
proof -
  have n: "sint (of_nat n :: int64) = int n"
    using assms by (intro sint_of_nat_exact) linarith
  show ?thesis
    using assms n by (simp add: sint_word_ariths signed_take_bit_int_eq_self)
qed

text \<open>Remaining room, as the code computes it, for a counter that is not negative.\<close>

lemma sint_remaining:
  assumes "0 < sint (limit b)" "0 \<le> sint (written b)"
  shows "sint (limit b - written b) = sint (limit b) - sint (written b)"
proof -
  from sint_bounds64 [of "limit b"] sint_bounds64 [of "written b"] assms
  have "- (2 ^ 63) \<le> sint (limit b) - sint (written b)"
    and "sint (limit b) - sint (written b) < 2 ^ 63" by linarith+
  then show ?thesis by (rule sint_diff_exact)
qed

lemma sint_remaining_full:
  assumes "0 < sint (limit b)" "sint (limit b) \<le> sint (written b)"
  shows "sint (limit b - written b) = sint (limit b) - sint (written b)"
  using assms by (intro sint_remaining) linarith+

subsection \<open>The four cases of \<open>Write\<close>\<close>

lemma Write_unbounded:
  "sint (limit b) \<le> 0 \<Longrightarrow>
   Write b p = (b\<lparr>buf := buf b @ p, written := written b + of_nat (length p)\<rparr>, length p)"
  by (simp add: Write_def)

lemma Write_full:
  assumes "0 < sint (limit b)" "sint (limit b) \<le> sint (written b)"
  shows "Write b p = (b\<lparr>truncated := True\<rparr>, length p)"
  using assms sint_remaining_full [OF assms] by (simp add: Write_def Let_def)

lemma Write_overflow:
  assumes "0 < sint (limit b)" "0 \<le> sint (written b)" "sint (written b) < sint (limit b)"
    "sint (limit b) - sint (written b) < int (length p)"
  shows "Write b p =
    (b\<lparr>buf := buf b @ take (nat (sint (limit b) - sint (written b))) p,
       written := limit b, truncated := True\<rparr>, length p)"
proof -
  define q where "q = take (nat (sint (limit b) - sint (written b))) p"
  have r: "sint (limit b - written b) = sint (limit b) - sint (written b)"
    using assms by (intro sint_remaining)
  have len: "int (length q) = sint (limit b) - sint (written b)"
    using assms by (simp add: q_def)
  have "sint (written b + of_nat (length q)) = sint (written b) + int (length q)"
    using assms len sint_bounds64 [of "limit b"] by (intro sint_add_of_nat) simp_all
  then have "sint (written b + of_nat (length q)) = sint (limit b)"
    using len by simp
  then have w: "written b + of_nat (length q) = limit b"
    by (rule signed_word_eqI)
  have "Write b p = (b\<lparr>buf := buf b @ q, written := written b + of_nat (length q),
      truncated := True\<rparr>, length p)"
    using assms r by (simp add: Write_def Let_def q_def)
  then show ?thesis
    by (simp only: w) (simp add: q_def)
qed

lemma Write_fits:
  assumes "0 < sint (limit b)" "0 \<le> sint (written b)" "sint (written b) < sint (limit b)"
    "int (length p) \<le> sint (limit b) - sint (written b)"
  shows "Write b p = (b\<lparr>buf := buf b @ p, written := written b + of_nat (length p)\<rparr>, length p)"
    and "sint (written b + of_nat (length p)) = sint (written b) + int (length p)"
proof -
  have r: "sint (limit b - written b) = sint (limit b) - sint (written b)"
    using assms by (intro sint_remaining)
  show "Write b p = (b\<lparr>buf := buf b @ p, written := written b + of_nat (length p)\<rparr>, length p)"
    using assms r by (simp add: Write_def Let_def)
  show "sint (written b + of_nat (length p)) = sint (written b) + int (length p)"
    using assms sint_bounds64 [of "limit b"] by (intro sint_add_of_nat) linarith+
qed


lemma Write_limit [simp]: "limit (fst (Write b p)) = limit b"
  by (simp add: Write_def Let_def)

lemma Write_count [simp]: "snd (Write b p) = length p"
  by (simp add: Write_def Let_def)

lemma Write_truncated_mono: "truncated b \<Longrightarrow> truncated (fst (Write b p))"
  by (simp add: Write_def Let_def)

subsection \<open>Sequences of writes\<close>

lemma writes_Nil [simp]: "writes b [] = b"
  by (simp add: writes_def)

lemma writes_Cons [simp]: "writes b (p # ps) = writes (fst (Write b p)) ps"
  by (simp add: writes_def)

lemma writes_append: "writes b (ps @ qs) = writes (writes b ps) qs"
  by (simp add: writes_def)

lemma writes_snoc: "writes b (ps @ [p]) = fst (Write (writes b ps) p)"
  by (simp add: writes_def)

lemma writes_limit [simp]: "limit (writes b ps) = limit b"
  by (induction ps arbitrary: b) simp_all

lemma writes_truncated_mono: "truncated b \<Longrightarrow> truncated (writes b ps)"
  by (induction ps arbitrary: b) (simp_all add: Write_truncated_mono)

lemma fresh_after_Nil: "0 < sint l \<Longrightarrow> fresh_after l [] (newLimitedBuffer l)"
  by (simp add: fresh_after_def newLimitedBuffer_def)

lemma fresh_after_step:
  assumes l: "0 < sint l" and s: "fresh_after l cs s"
  shows "fresh_after l (cs @ [c]) (fst (Write s c))"
proof -
  let ?n = "int (length (concat cs))"
  from s have lim: "limit s = l" and w: "sint (written s) = min (sint l) ?n"
    and b: "buf s = take (nat (sint l)) (concat cs)"
    by (simp_all add: fresh_after_def)
  consider (full) "sint l \<le> ?n" | (over) "?n < sint l" "sint l - ?n < int (length c)"
    | (fits) "?n < sint l" "int (length c) \<le> sint l - ?n"
    by linarith
  then show ?thesis
  proof cases
    case full
    then have "Write s c = (s\<lparr>truncated := True\<rparr>, length c)"
      using l lim w by (intro Write_full) simp_all
    then show ?thesis
      using full l s by (auto simp add: fresh_after_def)
  next
    case over
    then have "Write s c = (s\<lparr>buf := buf s @ take (nat (sint (limit s) - sint (written s))) c,
        written := limit s, truncated := True\<rparr>, length c)"
      using l lim w by (intro Write_overflow) simp_all
    then show ?thesis
      using over l lim w b by (auto simp add: fresh_after_def nat_diff_distrib)
  next
    case fits
    then have "Write s c = (s\<lparr>buf := buf s @ c, written := written s + of_nat (length c)\<rparr>, length c)"
      and "sint (written s + of_nat (length c)) = sint (written s) + int (length c)"
      using l lim w by (simp_all add: Write_fits)
    then show ?thesis
      using fits l s by (auto simp add: fresh_after_def)
  qed
qed

lemma fresh_after_writes:
  "0 < sint l \<Longrightarrow> fresh_after l cs (writes (newLimitedBuffer l) cs)"
  by (induction cs rule: rev_induct) (simp_all add: fresh_after_Nil writes_snoc fresh_after_step)

lemma writes_unbounded:
  "sint (limit b) \<le> 0 \<Longrightarrow>
   writes b cs = b\<lparr>buf := buf b @ concat cs, written := written b + of_nat (length (concat cs))\<rparr>"
  by (induction cs arbitrary: b) (simp_all add: Write_unbounded add.assoc)


lemma writes_fresh_length:
  assumes "0 < sint l"
  shows "int (length (buf (writes (newLimitedBuffer l) cs))) \<le> sint l"
proof -
  from fresh_after_writes [OF assms, of cs]
  have "buf (writes (newLimitedBuffer l) cs) = take (nat (sint l)) (concat cs)"
    by (simp add: fresh_after_def)
  with assms show ?thesis by simp
qed

text \<open>The counter of a sink with a positive limit stays between 0 and the limit.\<close>

lemma writes_fresh_counter:
  assumes "0 < sint l"
  shows "0 \<le> sint (written (writes (newLimitedBuffer l) cs)) \<and>
         sint (written (writes (newLimitedBuffer l) cs)) \<le> sint l"
  using fresh_after_writes [OF assms, of cs] assms by (simp add: fresh_after_def)

lemma Write_fresh_truncated:
  assumes "0 < sint l"
  shows "truncated (fst (Write (newLimitedBuffer l) p)) \<longleftrightarrow> sint l < int (length p)"
proof -
  have r: "sint (limit (newLimitedBuffer l) - written (newLimitedBuffer l)) = sint l"
    by (simp add: newLimitedBuffer_def)
  show ?thesis
    using assms r by (simp add: Write_def Let_def) (simp add: newLimitedBuffer_def)
qed

text \<open>A full sink whose flag is set no longer changes.\<close>

lemma writes_frozen:
  assumes "0 < sint (limit b)" and "sint (limit b) \<le> sint (written b)" and "truncated b"
  shows "writes b qs = b"
proof (induction qs)
  case Nil
  show ?case by simp
next
  case (Cons q qs)
  have "fst (Write b q) = b"
    using Write_full [OF assms(1,2), of q] assms(3) by simp
  with Cons show ?case by simp
qed

subsection \<open>A chunk larger than the remaining room\<close>

text \<open>
  C4, as the code has it. The sink has a positive limit and a counter between 0 and the
  limit (as every sink has that was created with that limit and written to since), and
  the chunk \<open>p\<close> is longer than the room that is left. Then the sink stores
  the prefix of \<open>p\<close> that fits and sets the truncated flag; the counter grows by the
  length of the stored prefix only, which makes it equal to the limit and leaves it
  below the old counter plus the length of \<open>p\<close>; the remaining room computed from then
  on is 0, and no later write changes the sink. The caller is told that all of \<open>p\<close>
  was written.
\<close>

theorem C4_overflowing_write:
  assumes "0 < sint (limit b)"
    and "0 \<le> sint (written b)" and "sint (written b) \<le> sint (limit b)"
    and "sint (limit b) - sint (written b) < int (length p)"
  shows "buf (fst (Write b p)) = buf b @ take (nat (sint (limit b) - sint (written b))) p \<and>
         truncated (fst (Write b p)) \<and>
         written (fst (Write b p)) = limit b \<and>
         sint (written (fst (Write b p))) < sint (written b) + int (length p) \<and>
         limit (fst (Write b p)) - written (fst (Write b p)) = 0 \<and>
         writes (fst (Write b p)) qs = fst (Write b p) \<and>
         snd (Write b p) = length p"
proof -
  have main: "buf (fst (Write b p)) = buf b @ take (nat (sint (limit b) - sint (written b))) p \<and>
      truncated (fst (Write b p)) \<and> written (fst (Write b p)) = limit b"
  proof (cases "sint (written b) = sint (limit b)")
    case True
    then have eq: "written b = limit b"
      by (rule signed_word_eqI)
    have "sint (limit b) \<le> sint (written b)"
      using True by simp
    from Write_full [OF assms(1) this, of p] show ?thesis
      by (simp add: eq)
  next
    case False
    with assms(3) have lt: "sint (written b) < sint (limit b)" by simp
    show ?thesis
      using Write_overflow [OF assms(1,2) lt assms(4)] by simp
  qed
  then have w: "written (fst (Write b p)) = limit b" and t: "truncated (fst (Write b p))"
    by simp_all
  have "writes (fst (Write b p)) qs = fst (Write b p)"
    using assms(1) t by (intro writes_frozen) (simp_all add: w)
  moreover have "sint (written (fst (Write b p))) < sint (written b) + int (length p)"
    using assms(4) by (simp add: w)
  ultimately show ?thesis
    using main by simp
qed

text \<open>
  At the limit 3, the chunk \<open>abcde\<close> written to a new sink leaves \<open>abc\<close> stored, the
  flag set and the counter at 3.
\<close>

theorem C4_overflowing_write_witness:
  "buf (fst (Write (newLimitedBuffer 3) ''abcde'')) = ''abc'' \<and>
   truncated (fst (Write (newLimitedBuffer 3) ''abcde'')) \<and>
   sint (written (fst (Write (newLimitedBuffer 3) ''abcde''))) = 3 \<and>
   snd (Write (newLimitedBuffer 3) ''abcde'') = 5"
proof -
  have h1: "0 < sint (limit (newLimitedBuffer 3))"
    and h2: "0 \<le> sint (written (newLimitedBuffer 3))"
    and h3: "sint (written (newLimitedBuffer 3)) \<le> sint (limit (newLimitedBuffer 3))"
    and h4: "sint (limit (newLimitedBuffer 3)) - sint (written (newLimitedBuffer 3))
        < int (length ''abcde'')"
    by (simp_all add: newLimitedBuffer_def)
  show ?thesis
    using C4_overflowing_write [OF h1 h2 h3 h4] by (simp add: newLimitedBuffer_def)
qed

text \<open>
  C4 as the specification words it has the counter grow by the whole length of the
  chunk. On the same input the chunk exceeds the room of 3 bytes, the counter ends at 3,
  and the old counter plus the length of the chunk is 5.
\<close>

theorem C4_counterexample:
  "0 < sint (limit (newLimitedBuffer 3)) \<and>
   sint (limit (newLimitedBuffer 3)) - sint (written (newLimitedBuffer 3)) < int (length ''abcde'') \<and>
   sint (written (fst (Write (newLimitedBuffer 3) ''abcde''))) = 3 \<and>
   sint (written (newLimitedBuffer 3)) + int (length ''abcde'') = 5"
  by (simp add: Write_def newLimitedBuffer_def)

subsection \<open>The stored length and the truncated flag over a sequence of writes\<close>

text \<open>
  C5. After any sequence of writes \<open>cs\<close> to a new sink, the stored length is at most the
  limit whenever the limit is positive; and when the truncated flag is set after \<open>cs\<close>,
  it is still set after any further writes \<open>ds\<close>.
\<close>

theorem C5_sink_invariant:
  "(0 < sint l \<longrightarrow> int (length (buf (writes (newLimitedBuffer l) cs))) \<le> sint l) \<and>
   (truncated (writes (newLimitedBuffer l) cs) \<longrightarrow>
      truncated (writes (newLimitedBuffer l) (cs @ ds)))"
proof
  show "0 < sint l \<longrightarrow> int (length (buf (writes (newLimitedBuffer l) cs))) \<le> sint l"
  proof
    assume l: "0 < sint l"
    from fresh_after_writes [OF l, of cs]
    have "buf (writes (newLimitedBuffer l) cs) = take (nat (sint l)) (concat cs)"
      by (simp add: fresh_after_def)
    with l show "int (length (buf (writes (newLimitedBuffer l) cs))) \<le> sint l"
      by simp
  qed
  show "truncated (writes (newLimitedBuffer l) cs) \<longrightarrow>
      truncated (writes (newLimitedBuffer l) (cs @ ds))"
    by (simp add: writes_append writes_truncated_mono)
qed

text \<open>
  At the limit 3, after \<open>ab\<close> and \<open>cd\<close> the sink stores at most 3 bytes and is
  truncated, and it is still truncated after \<open>e\<close>.
\<close>

theorem C5_sink_invariant_witness:
  "0 < sint (3 :: int64) \<and>
   int (length (buf (writes (newLimitedBuffer 3) [''ab'', ''cd'']))) \<le> sint (3 :: int64) \<and>
   truncated (writes (newLimitedBuffer 3) [''ab'', ''cd'']) \<and>
   truncated (writes (newLimitedBuffer 3) ([''ab'', ''cd''] @ [''e'']))"
proof -
  have t: "truncated (writes (newLimitedBuffer 3) [''ab'', ''cd''])"
    by (simp add: Write_def newLimitedBuffer_def)
  show ?thesis
    using t C5_sink_invariant [of 3 "[''ab'', ''cd'']" "[''e'']"] by simp
qed

subsection \<open>One chunk or many\<close>

text \<open>
  C6. Writing the chunks \<open>cs\<close> one after the other to a new sink of limit \<open>l\<close> leaves
  the same sink as writing their concatenation in one chunk: the same truncated flag
  and the same stored bytes (so the same captured length), and the same counter. This
  holds for every partition of the bytes into chunks, none of them empty, and for every
  limit. It holds with empty chunks among \<open>cs\<close> as well when the limit is not positive
  or the total length differs from the limit.
\<close>

theorem C6_one_chunk_or_many:
  assumes "[] \<notin> set cs \<or> sint l \<le> 0 \<or> int (length (concat cs)) \<noteq> sint l"
  shows "writes (newLimitedBuffer l) cs = fst (Write (newLimitedBuffer l) (concat cs))"
proof (cases "0 < sint l")
  case False
  then have "sint (limit (newLimitedBuffer l)) \<le> 0"
    by (simp add: newLimitedBuffer_def)
  then show ?thesis
    by (simp add: writes_unbounded Write_unbounded)
next
  case True
  let ?m = "writes (newLimitedBuffer l) cs"
  let ?o = "writes (newLimitedBuffer l) [concat cs]"
  have m: "fresh_after l cs ?m" and o: "fresh_after l [concat cs] ?o"
    using True by (rule fresh_after_writes)+
  have "buf ?m = buf ?o" "limit ?m = limit ?o"
    using m o by (simp_all add: fresh_after_def)
  moreover have "sint (written ?m) = sint (written ?o)"
    using m o by (simp add: fresh_after_def)
  then have "written ?m = written ?o"
    by (rule signed_word_eqI)
  moreover have "truncated ?m \<longleftrightarrow> sint l < int (length (concat cs))"
    using m assms True by (auto simp add: fresh_after_def)
  then have "truncated ?m = truncated ?o"
    using Write_fresh_truncated [OF True, of "concat cs"] by simp
  ultimately have "?m = ?o" by simp
  then show ?thesis by simp
qed

text \<open>
  At the limit 3, the chunks \<open>ab\<close> and \<open>cd\<close> leave the sink that \<open>abcd\<close> leaves:
  \<open>abc\<close> stored and the flag set.
\<close>

theorem C6_one_chunk_or_many_witness:
  "[] \<notin> set [''ab'', ''cd''] \<and>
   writes (newLimitedBuffer 3) [''ab'', ''cd''] = fst (Write (newLimitedBuffer 3) ''abcd'') \<and>
   truncated (writes (newLimitedBuffer 3) [''ab'', ''cd'']) \<and>
   buf (writes (newLimitedBuffer 3) [''ab'', ''cd'']) = ''abc''"
proof -
  have h: "[] \<notin> set [''ab'', ''cd''] \<or> sint (3 :: int64) \<le> 0
      \<or> int (length (concat [''ab'', ''cd''])) \<noteq> sint (3 :: int64)"
    by simp
  have o: "fst (Write (newLimitedBuffer 3) ''abcd'')
      = \<lparr>buf = ''abc'', limit = 3, written = 3, truncated = True\<rparr>"
    by (simp add: Write_def newLimitedBuffer_def)
  show ?thesis
    using C6_one_chunk_or_many [OF h] by (simp add: o)
qed

subsection \<open>Writes to a full sink\<close>

text \<open>
  C9. When the limit is positive and the counter has reached it, a write of any chunk,
  the empty one included, sets the truncated flag and leaves the counter, the stored
  bytes and the limit as they were; the caller is told that the whole chunk was written.
  So the flag can become true on a write that drops nothing: there is a full sink with
  a clear flag, and the empty write sets its flag.
\<close>

theorem C9_full_sink_write:
  assumes "0 < sint (limit b)" and "sint (limit b) \<le> sint (written b)"
  shows "truncated (fst (Write b p)) \<and> written (fst (Write b p)) = written b \<and>
         buf (fst (Write b p)) = buf b \<and> limit (fst (Write b p)) = limit b \<and>
         snd (Write b p) = length p \<and>
         (\<exists>s. 0 < sint (limit s) \<and> sint (limit s) \<le> sint (written s) \<and>
              \<not> truncated s \<and> truncated (fst (Write s [])))"
proof -
  let ?s = "\<lparr>buf = ''abc'', limit = 3, written = 3, truncated = False\<rparr>"
  have "0 < sint (limit ?s) \<and> sint (limit ?s) \<le> sint (written ?s) \<and>
      \<not> truncated ?s \<and> truncated (fst (Write ?s []))"
    by (simp add: Write_def)
  then have "\<exists>s. 0 < sint (limit s) \<and> sint (limit s) \<le> sint (written s) \<and>
      \<not> truncated s \<and> truncated (fst (Write s []))" ..
  then show ?thesis
    using Write_full [OF assms, of p] by simp
qed

text \<open>
  After \<open>abc\<close> a new sink of limit 3 is full and not truncated, and an empty write
  then sets the flag while the stored bytes and the counter stay.
\<close>

theorem C9_full_sink_write_witness:
  "0 < sint (limit (fst (Write (newLimitedBuffer 3) ''abc''))) \<and>
   sint (limit (fst (Write (newLimitedBuffer 3) ''abc'')))
     \<le> sint (written (fst (Write (newLimitedBuffer 3) ''abc''))) \<and>
   \<not> truncated (fst (Write (newLimitedBuffer 3) ''abc'')) \<and>
   truncated (fst (Write (fst (Write (newLimitedBuffer 3) ''abc'')) [])) \<and>
   buf (fst (Write (fst (Write (newLimitedBuffer 3) ''abc'')) [])) = ''abc'' \<and>
   written (fst (Write (fst (Write (newLimitedBuffer 3) ''abc'')) [])) = 3"
proof -
  have b: "fst (Write (newLimitedBuffer 3) ''abc'')
      = \<lparr>buf = ''abc'', limit = 3, written = 3, truncated = False\<rparr>"
    by (simp add: Write_def newLimitedBuffer_def)
  have h1: "0 < sint (limit (fst (Write (newLimitedBuffer 3) ''abc'')))"
    and h2: "sint (limit (fst (Write (newLimitedBuffer 3) ''abc'')))
      \<le> sint (written (fst (Write (newLimitedBuffer 3) ''abc'')))"
    by (simp_all add: b)
  show ?thesis
    using h1 h2 C9_full_sink_write [OF h1 h2, of "[]"] by (simp add: b)
qed

section \<open>Properties of a run\<close>

subsection \<open>What \<open>runCommand\<close> returns once the process has started\<close>

lemma Run_nonempty:
  assumes "c \<noteq> []"
  shows "fst (Run pf w c opts) = fst (runCommand pf w (applyOptions opts (defaultConfig c)))"
    and "snd (Run pf w c opts)
      = map EvOption [0..<length opts] @ snd (runCommand pf w (applyOptions opts (defaultConfig c)))"
  using assms by (simp_all add: Run_def Let_def split_beta)

lemma runCommand_Err:
  assumes "Start_err w = None"
  shows "Err (fst (runCommand pf w cfg))
    = (if ctx_Done_first w then Some (Errorf_w ErrContextDone (Wait_err w)) else Wait_err w)"
  using assms
  by (cases pf) (simp_all add: runCommand_unix_def runCommand_windows_def Let_def)

lemma runCommand_ExitCode_state:
  assumes "Start_err w = None" and "ProcessState_after w = Some ps"
  shows "ExitCode (fst (runCommand pf w cfg)) = ProcessState_ExitCode ps"
  using assms
  by (cases pf) (simp_all add: runCommand_unix_def runCommand_windows_def Let_def)

lemma runCommand_ExitCode_cancelled:
  assumes "Start_err w = None" and "ctx_Done_first w"
  shows "ExitCode (fst (runCommand pf w cfg))
    = (case ProcessState_after w of None \<Rightarrow> - 1 | Some ps \<Rightarrow> ProcessState_ExitCode ps)"
  using assms
  by (cases pf)
    (simp_all add: runCommand_unix_def runCommand_windows_def Let_def split: option.split)

lemma runCommand_calls:
  assumes "Start_err w = None"
  shows "\<exists>ec. snd (runCommand pf w cfg)
    = EvStart ec #
      (if ctx_Done_first w
       then (if Process_set w then [case pf of Unix \<Rightarrow> EvKillGroup | Windows \<Rightarrow> EvKillProcess] else [])
            @ [EvWait]
       else [EvWait])"
  using assms
  by (cases pf) (simp_all add: runCommand_unix_def runCommand_windows_def Let_def)

lemma runCommand_sinks:
  assumes "Start_err w = None"
  shows "Stdout (fst (runCommand pf w cfg))
      = String (writes (newLimitedBuffer (maxOutput cfg)) (stdout_chunks w))"
    and "StdoutTruncated (fst (runCommand pf w cfg))
      = truncated (writes (newLimitedBuffer (maxOutput cfg)) (stdout_chunks w))"
    and "Stderr (fst (runCommand pf w cfg))
      = String (writes (newLimitedBuffer (maxOutput cfg)) (stderr_chunks w))"
    and "StderrTruncated (fst (runCommand pf w cfg))
      = truncated (writes (newLimitedBuffer (maxOutput cfg)) (stderr_chunks w))"
  using assms
  by (cases pf; simp add: runCommand_unix_def runCommand_windows_def Let_def split_beta)+

subsection \<open>Error classes\<close>

lemma Is_wrapped_ErrContextDone: "Is (Some (Errorf_w ErrContextDone v)) ErrContextDone"
  by (simp add: ErrContextDone_def)

lemma not_Is_wrapped_ErrStart: "\<not> Is (Some (Errorf_w ErrContextDone v)) ErrStart"
  by (simp add: ErrContextDone_def ErrStart_def)

lemma not_Is_clean:
  "\<not> Is (if k = 0 then None else Some (ExitError ps)) ErrContextDone"
  "\<not> Is (if k = 0 then None else Some (ExitError ps)) ErrStart"
  by (simp_all add: ErrContextDone_def ErrStart_def)

subsection \<open>Options and the capture limit\<close>

lemma applyOptions_Nil [simp]: "applyOptions [] cfg = cfg"
  by (simp add: applyOptions_def)

lemma applyOptions_append: "applyOptions (xs @ ys) cfg = applyOptions ys (applyOptions xs cfg)"
  by (simp add: applyOptions_def)

lemma applyOptions_Cons [simp]: "applyOptions (x # xs) cfg = applyOptions xs (x cfg)"
  by (simp add: applyOptions_def)

lemma applyOptions_keeps:
  "\<forall>opt\<in>set opts. keeps_maxOutput opt \<Longrightarrow> maxOutput (applyOptions opts cfg) = maxOutput cfg"
  by (induction opts arbitrary: cfg) (simp_all add: keeps_maxOutput_def)

lemma keeps_maxOutput_helpers:
  "keeps_maxOutput (WithArgs a)" "keeps_maxOutput (WithEnv e)" "keeps_maxOutput (WithDir d)"
  "keeps_maxOutput (WithStdout x)" "keeps_maxOutput (WithStderr x)"
  "keeps_maxOutput (WithCredential uid gid)"
  by (simp_all add: keeps_maxOutput_def WithArgs_def WithEnv_def WithDir_def WithStdout_def
      WithStderr_def WithCredential_def)

lemma maxOutput_last_WithMaxOutput:
  assumes "\<forall>opt\<in>set post. keeps_maxOutput opt"
  shows "maxOutput (applyOptions (pre @ WithMaxOutput m # post) cfg) = m"
  using assms by (simp add: applyOptions_append applyOptions_keeps WithMaxOutput_def)

subsection \<open>The empty command\<close>

text \<open>
  C7. Whatever the platform, the environment and the options, \<open>Run\<close> with the empty
  command returns exit code \<open>-1\<close>, the error "executor: command cannot be empty" (which
  is neither a start failure nor a cancellation), a zero duration, empty captures and
  clear truncation flags; and it makes no call at all: no option is applied and no
  process is started.
\<close>

theorem C7_empty_command:
  "Run pf w [] opts =
     (\<lparr>Stdout = [], Stderr = [], ExitCode = - 1,
       Err = Some (ErrorString ''executor: command cannot be empty''),
       Duration = 0, StdoutTruncated = False, StderrTruncated = False\<rparr>, []) \<and>
   \<not> Is (Err (fst (Run pf w [] opts))) ErrStart \<and>
   \<not> Is (Err (fst (Run pf w [] opts))) ErrContextDone"
  by (simp add: Run_def ErrStart_def ErrContextDone_def)

subsection \<open>A process that exits cleanly\<close>

text \<open>
  C8. When the process runs to the end and exits with code \<open>k\<close>, the exit code of the
  result is \<open>k\<close> and its error is neither of the cancellation class nor of the
  start-failure class. This holds for every \<open>k\<close>, so for those between 0 and 255.
\<close>

theorem C8_clean_exit_code:
  assumes "c \<noteq> []" and "exits_cleanly w k"
  shows "ExitCode (fst (Run pf w c opts)) = int k \<and>
         \<not> Is (Err (fst (Run pf w c opts))) ErrContextDone \<and>
         \<not> Is (Err (fst (Run pf w c opts))) ErrStart"
proof -
  from assms(2) have s: "Start_err w = None"
    and p: "ProcessState_after w = Some (ProcessState (WExited k))"
    and d: "\<not> ctx_Done_first w"
    and e: "Wait_err w = (if k = 0 then None else Some (ExitError (ProcessState (WExited k))))"
    by (simp_all add: exits_cleanly_def)
  have "ExitCode (fst (Run pf w c opts)) = int k"
    using assms(1) runCommand_ExitCode_state [OF s p]
    by (simp add: Run_nonempty ProcessState_ExitCode_def)
  moreover have "Err (fst (Run pf w c opts))
      = (if k = 0 then None else Some (ExitError (ProcessState (WExited k))))"
    using assms(1) s d e by (simp add: Run_nonempty runCommand_Err)
  ultimately show ?thesis
    by (simp only: not_Is_clean) simp
qed

text \<open>
  A run of \<open>sh -c 'exit 255'\<close> that completes has the exit code 255.
\<close>

theorem C8_clean_exit_code_witness:
  "exits_cleanly
     \<lparr>Environ = [], Start_err = None, ctx_Done_first = False, Process_set = True,
      Wait_err = Some (ExitError (ProcessState (WExited 255))),
      ProcessState_after = Some (ProcessState (WExited 255)),
      stdout_chunks = [], stderr_chunks = [], elapsed = 100\<rparr> 255 \<and>
   ExitCode (fst (Run Unix
     \<lparr>Environ = [], Start_err = None, ctx_Done_first = False, Process_set = True,
      Wait_err = Some (ExitError (ProcessState (WExited 255))),
      ProcessState_after = Some (ProcessState (WExited 255)),
      stdout_chunks = [], stderr_chunks = [], elapsed = 100\<rparr>
     ''sh'' [WithArgs [''-c'', ''exit 255'']])) = 255"
proof -
  let ?w = "\<lparr>Environ = [], Start_err = None, ctx_Done_first = False, Process_set = True,
      Wait_err = Some (ExitError (ProcessState (WExited 255))),
      ProcessState_after = Some (ProcessState (WExited 255)),
      stdout_chunks = [], stderr_chunks = [], elapsed = 100\<rparr>"
  have h1: "''sh'' \<noteq> []" and h2: "exits_cleanly ?w 255"
    by (simp_all add: exits_cleanly_def)
  show ?thesis
    using h2 C8_clean_exit_code [OF h1 h2, of Unix "[WithArgs [''-c'', ''exit 255'']]"] by simp
qed

text \<open>
  C3, as the code has it. When the process has started and the wait resolves the
  \<open>select\<close> (no start failure, no cancellation), the error of the result is the value
  the wait returned, unwrapped; so it is nil exactly when the wait returned nil. For a
  nonzero exit the wait of \<open>os/exec\<close> returns an \<open>*exec.ExitError\<close>, and that is the
  error of the result.
\<close>

theorem C3_clean_exit_error:
  assumes "c \<noteq> []" and "Start_err w = None" and "\<not> ctx_Done_first w"
  shows "Err (fst (Run pf w c opts)) = Wait_err w \<and>
         (Err (fst (Run pf w c opts)) = None) = (Wait_err w = None)"
  using assms by (simp add: Run_nonempty runCommand_Err)

text \<open>
  A run of \<open>echo hello\<close> whose wait returns nil has no error; a run that exits with
  code 0 while the wait reports a failed copy to the caller's writer has that error.
\<close>

theorem C3_clean_exit_error_witness:
  "Err (fst (Run Unix
     \<lparr>Environ = [], Start_err = None, ctx_Done_first = False, Process_set = True,
      Wait_err = None, ProcessState_after = Some (ProcessState (WExited 0)),
      stdout_chunks = [''hello\<newline>''], stderr_chunks = [], elapsed = 100\<rparr>
     ''echo'' [WithArgs [''hello'']])) = None \<and>
   Err (fst (Run Unix
     \<lparr>Environ = [], Start_err = None, ctx_Done_first = False, Process_set = True,
      Wait_err = Some (SystemError ''external writer failed''),
      ProcessState_after = Some (ProcessState (WExited 0)),
      stdout_chunks = [''hello\<newline>''], stderr_chunks = [], elapsed = 100\<rparr>
     ''echo'' [WithArgs [''hello''], WithStdout (External 1)]))
     = Some (SystemError ''external writer failed'')"
proof -
  let ?w = "\<lparr>Environ = [], Start_err = None, ctx_Done_first = False, Process_set = True,
      Wait_err = None, ProcessState_after = Some (ProcessState (WExited 0)),
      stdout_chunks = [''hello\<newline>''], stderr_chunks = [], elapsed = 100\<rparr>"
  let ?v = "\<lparr>Environ = [], Start_err = None, ctx_Done_first = False, Process_set = True,
      Wait_err = Some (SystemError ''external writer failed''),
      ProcessState_after = Some (ProcessState (WExited 0)),
      stdout_chunks = [''hello\<newline>''], stderr_chunks = [], elapsed = 100\<rparr>"
  have c: "''echo'' \<noteq> []"
    and w1: "Start_err ?w = None" and w2: "\<not> ctx_Done_first ?w"
    and v1: "Start_err ?v = None" and v2: "\<not> ctx_Done_first ?v"
    by simp_all
  show ?thesis
    using C3_clean_exit_error [OF c w1 w2, of Unix "[WithArgs [''hello'']]"]
      C3_clean_exit_error [OF c v1 v2, of Unix "[WithArgs [''hello''], WithStdout (External 1)]"]
    by simp
qed

text \<open>
  C3 as the specification words it has a nil error for a nonzero exit too. A run of
  \<open>false\<close>, which completes cleanly with code 1, has the exit error in its result.
\<close>

theorem C3_counterexample:
  "exits_cleanly
     \<lparr>Environ = [], Start_err = None, ctx_Done_first = False, Process_set = True,
      Wait_err = Some (ExitError (ProcessState (WExited 1))),
      ProcessState_after = Some (ProcessState (WExited 1)),
      stdout_chunks = [], stderr_chunks = [], elapsed = 100\<rparr> 1 \<and>
   Err (fst (Run Unix
     \<lparr>Environ = [], Start_err = None, ctx_Done_first = False, Process_set = True,
      Wait_err = Some (ExitError (ProcessState (WExited 1))),
      ProcessState_after = Some (ProcessState (WExited 1)),
      stdout_chunks = [], stderr_chunks = [], elapsed = 100\<rparr>
     ''false'' [])) = Some (ExitError (ProcessState (WExited 1)))"
  by (simp add: exits_cleanly_def Run_def runCommand_unix_def applyOptions_def
      defaultConfig_def Let_def)

subsection \<open>Cancellation\<close>

text \<open>
  C1, as the code has it. When the process has started and the \<open>select\<close> takes the
  cancellation case, the error of the result is \<open>ErrContextDone\<close> wrapped around the
  text of what the wait returned, so it is of the cancellation class and not of the
  start-failure class. The exit code is read from the process state the wait left:
  \<open>-1\<close> when there is none or when the process did not exit by itself (the kill
  terminates it by a signal), and the process's own code when it had exited before the
  kill took effect. After the start, the kill is issued whenever the process handle is
  set, and the wait is received last.
\<close>

theorem C1_cancelled_run:
  assumes "c \<noteq> []" and "Start_err w = None" and "ctx_Done_first w"
  shows "Err (fst (Run pf w c opts)) = Some (Errorf_w ErrContextDone (Wait_err w)) \<and>
         Is (Err (fst (Run pf w c opts))) ErrContextDone \<and>
         \<not> Is (Err (fst (Run pf w c opts))) ErrStart \<and>
         ExitCode (fst (Run pf w c opts))
           = (case ProcessState_after w of
                None \<Rightarrow> - 1
              | Some ps \<Rightarrow>
                 (case Sys ps of WExited k \<Rightarrow> int k | WSignaled s \<Rightarrow> - 1 | WOther \<Rightarrow> - 1)) \<and>
         (\<exists>ec. snd (Run pf w c opts)
            = map EvOption [0..<length opts] @ EvStart ec #
              (if Process_set w
               then [case pf of Unix \<Rightarrow> EvKillGroup | Windows \<Rightarrow> EvKillProcess] else [])
              @ [EvWait])"
proof -
  let ?cfg = "applyOptions opts (defaultConfig c)"
  have e: "Err (fst (Run pf w c opts)) = Some (Errorf_w ErrContextDone (Wait_err w))"
    using assms by (simp add: Run_nonempty runCommand_Err)
  have x: "ExitCode (fst (Run pf w c opts))
      = (case ProcessState_after w of
           None \<Rightarrow> - 1
         | Some ps \<Rightarrow>
            (case Sys ps of WExited k \<Rightarrow> int k | WSignaled s \<Rightarrow> - 1 | WOther \<Rightarrow> - 1))"
    using assms
    by (simp add: Run_nonempty runCommand_ExitCode_cancelled ProcessState_ExitCode_def
        split: option.split WaitStatus.split)
  from runCommand_calls [OF assms(2), of pf ?cfg] assms(3)
  obtain ec where "snd (runCommand pf w ?cfg)
      = EvStart ec #
        (if Process_set w
         then [case pf of Unix \<Rightarrow> EvKillGroup | Windows \<Rightarrow> EvKillProcess] else [])
        @ [EvWait]"
    by auto
  then have k: "\<exists>ec. snd (Run pf w c opts)
      = map EvOption [0..<length opts] @ EvStart ec #
        (if Process_set w
         then [case pf of Unix \<Rightarrow> EvKillGroup | Windows \<Rightarrow> EvKillProcess] else [])
        @ [EvWait]"
    using assms(1) by (simp add: Run_nonempty)
  show ?thesis
    using e x k by (simp only: Is_wrapped_ErrContextDone not_Is_wrapped_ErrStart) simp
qed

text \<open>
  A \<open>sleep 1\<close> cancelled and killed by signal 9 has the exit code \<open>-1\<close> and the
  wrapped error.
\<close>

theorem C1_cancelled_run_witness:
  "ExitCode (fst (Run Unix
      \<lparr>Environ = [], Start_err = None, ctx_Done_first = True, Process_set = True,
       Wait_err = Some (ExitError (ProcessState (WSignaled 9))),
       ProcessState_after = Some (ProcessState (WSignaled 9)),
       stdout_chunks = [], stderr_chunks = [], elapsed = 100\<rparr>
      ''sleep'' [WithArgs [''1'']])) = - 1 \<and>
   Err (fst (Run Unix
      \<lparr>Environ = [], Start_err = None, ctx_Done_first = True, Process_set = True,
       Wait_err = Some (ExitError (ProcessState (WSignaled 9))),
       ProcessState_after = Some (ProcessState (WSignaled 9)),
       stdout_chunks = [], stderr_chunks = [], elapsed = 100\<rparr>
      ''sleep'' [WithArgs [''1'']]))
     = Some (Errorf_w ErrContextDone (Some (ExitError (ProcessState (WSignaled 9)))))"
proof -
  let ?w = "\<lparr>Environ = [], Start_err = None, ctx_Done_first = True, Process_set = True,
       Wait_err = Some (ExitError (ProcessState (WSignaled 9))),
       ProcessState_after = Some (ProcessState (WSignaled 9)),
       stdout_chunks = [], stderr_chunks = [], elapsed = 100\<rparr>"
  have h1: "''sleep'' \<noteq> []" and h2: "Start_err ?w = None" and h3: "ctx_Done_first ?w"
    by simp_all
  show ?thesis
    using C1_cancelled_run [OF h1 h2 h3, of Unix "[WithArgs [''1'']]"] by simp
qed

text \<open>
  C1 as the specification words it has the exit code \<open>-1\<close> whatever the wait reports.
  When the cancellation case is taken and the wait then reports a process that exited
  with code 0 (it ended by itself before the kill reached it), the result has the
  cancellation error and the exit code 0.
\<close>

theorem C1_counterexample:
  "Start_err
     \<lparr>Environ = [], Start_err = None, ctx_Done_first = True, Process_set = True,
      Wait_err = None, ProcessState_after = Some (ProcessState (WExited 0)),
      stdout_chunks = [], stderr_chunks = [], elapsed = 100\<rparr> = None \<and>
   ctx_Done_first
     \<lparr>Environ = [], Start_err = None, ctx_Done_first = True, Process_set = True,
      Wait_err = None, ProcessState_after = Some (ProcessState (WExited 0)),
      stdout_chunks = [], stderr_chunks = [], elapsed = 100\<rparr> \<and>
   Is (Err (fst (Run Unix
     \<lparr>Environ = [], Start_err = None, ctx_Done_first = True, Process_set = True,
      Wait_err = None, ProcessState_after = Some (ProcessState (WExited 0)),
      stdout_chunks = [], stderr_chunks = [], elapsed = 100\<rparr>
     ''sleep'' [WithArgs [''1'']]))) ErrContextDone \<and>
   ExitCode (fst (Run Unix
     \<lparr>Environ = [], Start_err = None, ctx_Done_first = True, Process_set = True,
      Wait_err = None, ProcessState_after = Some (ProcessState (WExited 0)),
      stdout_chunks = [], stderr_chunks = [], elapsed = 100\<rparr>
     ''sleep'' [WithArgs [''1'']])) = 0"
  by (simp add: Run_def runCommand_unix_def applyOptions_def defaultConfig_def WithArgs_def
      ProcessState_ExitCode_def ErrContextDone_def Let_def)

subsection \<open>The exit code on Unix\<close>

text \<open>
  C2 says that on Unix a process terminated by a signal has the exit code 128 plus the
  signal number. The code does not do that. A \<open>sleep 60\<close> that signal 15 terminates,
  with no cancellation, leaves a process state and an \<open>*exec.ExitError\<close>; the status is
  that of a signal and 128 plus the signal number is 143, but the exit code is read
  from the process state and is \<open>-1\<close>. The lines that compute 128 plus the signal
  number are in the branch taken only when there is no process state.
\<close>

theorem C2_signal_death_exit_code:
  "Signaled (Sys (ProcessState (WSignaled 15))) \<and>
   128 + Signal (Sys (ProcessState (WSignaled 15))) = 143 \<and>
   ExitCode (fst (Run Unix
     \<lparr>Environ = [], Start_err = None, ctx_Done_first = False, Process_set = True,
      Wait_err = Some (ExitError (ProcessState (WSignaled 15))),
      ProcessState_after = Some (ProcessState (WSignaled 15)),
      stdout_chunks = [], stderr_chunks = [], elapsed = 100\<rparr>
     ''sleep'' [WithArgs [''60'']])) = - 1"
  by (simp add: Run_def runCommand_unix_def applyOptions_def defaultConfig_def WithArgs_def
      ProcessState_ExitCode_def Let_def)

subsection \<open>One capture limit for both streams\<close>

text \<open>
  C10. On either platform, once the process has started, the captured standard output
  is what a new sink with the configured limit holds after the chunks of standard
  output, and the captured standard error is what another new sink with the same limit
  holds after the chunks of standard error; so with a positive limit each capture is at
  most that long, whatever the other stream wrote. The limit is the \<open>maxOutput\<close> of
  the configuration after all options: \<open>1024 * 10\<close> when no option changes it, and
  \<open>m\<close> when \<open>WithMaxOutput m\<close> is the last option that changes it.
\<close>

theorem C10_one_limit_two_sinks:
  fixes pf w c opts
  defines "n \<equiv> maxOutput (applyOptions opts (defaultConfig c))"
    and "r \<equiv> fst (Run pf w c opts)"
  assumes "c \<noteq> []" and "Start_err w = None"
  shows "Stdout r = String (writes (newLimitedBuffer n) (stdout_chunks w)) \<and>
         StdoutTruncated r = truncated (writes (newLimitedBuffer n) (stdout_chunks w)) \<and>
         Stderr r = String (writes (newLimitedBuffer n) (stderr_chunks w)) \<and>
         StderrTruncated r = truncated (writes (newLimitedBuffer n) (stderr_chunks w)) \<and>
         (0 < sint n \<longrightarrow> int (length (Stdout r)) \<le> sint n \<and> int (length (Stderr r)) \<le> sint n) \<and>
         ((\<forall>opt\<in>set opts. keeps_maxOutput opt) \<longrightarrow> n = 1024 * 10) \<and>
         (\<forall>pre m post. opts = pre @ WithMaxOutput m # post \<longrightarrow>
            (\<forall>opt\<in>set post. keeps_maxOutput opt) \<longrightarrow> n = m)"
proof -
  have sinks: "Stdout r = String (writes (newLimitedBuffer n) (stdout_chunks w))"
    "StdoutTruncated r = truncated (writes (newLimitedBuffer n) (stdout_chunks w))"
    "Stderr r = String (writes (newLimitedBuffer n) (stderr_chunks w))"
    "StderrTruncated r = truncated (writes (newLimitedBuffer n) (stderr_chunks w))"
    using assms(3,4) by (simp_all add: n_def r_def Run_nonempty runCommand_sinks)
  have bound: "0 < sint n \<longrightarrow> int (length (Stdout r)) \<le> sint n \<and> int (length (Stderr r)) \<le> sint n"
    by (simp add: sinks String_def writes_fresh_length)
  have dflt: "(\<forall>opt\<in>set opts. keeps_maxOutput opt) \<longrightarrow> n = 1024 * 10"
    by (simp add: n_def applyOptions_keeps defaultConfig_def)
  have last: "\<forall>pre m post. opts = pre @ WithMaxOutput m # post \<longrightarrow>
      (\<forall>opt\<in>set post. keeps_maxOutput opt) \<longrightarrow> n = m"
    by (simp add: n_def maxOutput_last_WithMaxOutput)
  from sinks bound dflt last show ?thesis by blast
qed

text \<open>
  With \<open>WithMaxOutput 3\<close>, four bytes on each stream leave three captured bytes and a
  set truncation flag on each.
\<close>

theorem C10_one_limit_two_sinks_witness:
  "Stdout (fst (Run Unix
      \<lparr>Environ = [], Start_err = None, ctx_Done_first = False, Process_set = True,
       Wait_err = None, ProcessState_after = Some (ProcessState (WExited 0)),
       stdout_chunks = [''abcd''], stderr_chunks = [''wx'', ''yz''], elapsed = 100\<rparr>
      ''sh'' [WithMaxOutput 3, WithDir ''/tmp''])) = ''abc'' \<and>
   Stderr (fst (Run Unix
      \<lparr>Environ = [], Start_err = None, ctx_Done_first = False, Process_set = True,
       Wait_err = None, ProcessState_after = Some (ProcessState (WExited 0)),
       stdout_chunks = [''abcd''], stderr_chunks = [''wx'', ''yz''], elapsed = 100\<rparr>
      ''sh'' [WithMaxOutput 3, WithDir ''/tmp''])) = ''wxy'' \<and>
   StdoutTruncated (fst (Run Unix
      \<lparr>Environ = [], Start_err = None, ctx_Done_first = False, Process_set = True,
       Wait_err = None, ProcessState_after = Some (ProcessState (WExited 0)),
       stdout_chunks = [''abcd''], stderr_chunks = [''wx'', ''yz''], elapsed = 100\<rparr>
      ''sh'' [WithMaxOutput 3, WithDir ''/tmp''])) \<and>
   StderrTruncated (fst (Run Unix
      \<lparr>Environ = [], Start_err = None, ctx_Done_first = False, Process_set = True,
       Wait_err = None, ProcessState_after = Some (ProcessState (WExited 0)),
       stdout_chunks = [''abcd''], stderr_chunks = [''wx'', ''yz''], elapsed = 100\<rparr>
      ''sh'' [WithMaxOutput 3, WithDir ''/tmp'']))"
proof -
  let ?w = "\<lparr>Environ = [], Start_err = None, ctx_Done_first = False, Process_set = True,
       Wait_err = None, ProcessState_after = Some (ProcessState (WExited 0)),
       stdout_chunks = [''abcd''], stderr_chunks = [''wx'', ''yz''], elapsed = 100\<rparr>"
  have h1: "''sh'' \<noteq> []" and h2: "Start_err ?w = None"
    by simp_all
  have k: "\<forall>opt\<in>set [WithDir ''/tmp'']. keeps_maxOutput opt"
    by (simp add: keeps_maxOutput_helpers)
  have n: "maxOutput (applyOptions [WithMaxOutput 3, WithDir ''/tmp''] (defaultConfig ''sh'')) = 3"
    using maxOutput_last_WithMaxOutput [OF k, of "[]" 3 "defaultConfig ''sh''"] by simp
  show ?thesis
    using C10_one_limit_two_sinks [OF h1 h2, of Unix "[WithMaxOutput 3, WithDir ''/tmp'']"]
    by (simp only: n) (simp add: String_def Write_def newLimitedBuffer_def)
qed

end
